theory Spec2Isabelle
  imports Complex_Main "HOL-Library.Sublist"
begin

section \<open>Data model\<close>

text \<open>
  Text that the user or the remote service supplies (names, e-mail addresses, the search
  query, the messages built from them) is a JavaScript string: a list of UTF-16 code
  units, numbers here. \<open>utf16\<close> writes an ASCII literal as such a string. The fixed
  labels the program itself writes (view mode, modal mode, theme, notification type) and
  the error messages it only stores stay Isabelle strings.
\<close>

type_synonym jsstring = "nat list"

definition utf16 :: "string \<Rightarrow> jsstring" where
  "utf16 s = map of_char s"

text \<open>
  A user record as the store holds it. The JavaScript objects come from the remote
  service and from the form, so every field other than the identifier may be missing:
  the selectors read them with \<open>?.\<close>. The identifier is an arbitrary JavaScript value
  \<open>'i\<close>; the reducers compare identifiers with the loose operators \<open>==\<close> and \<open>!=\<close>,
  which every reducer below takes as the argument \<open>loose_eq\<close>.
\<close>

record 'i user =
  user_id :: 'i
  first_name :: "jsstring option"
  last_name :: "jsstring option"
  email :: "jsstring option"
  avatar :: "jsstring option"

text \<open>The payload of \<open>updateUser.fulfilled\<close>: \<open>{ id, ...userData, ...data }\<close>.\<close>

record 'i user_patch =
  patch_id :: 'i
  patch_first_name :: "jsstring option"
  patch_last_name :: "jsstring option"
  patch_email :: "jsstring option"
  patch_avatar :: "jsstring option"

section \<open>The users slice (usersSlice.js)\<close>

record 'i users_state =
  users :: "'i user list"
  loading :: bool
  error :: "string option"
  searchQuery :: jsstring

definition users_initialState :: "'i users_state" where
  "users_initialState = \<lparr>users = [], loading = False, error = None, searchQuery = []\<rparr>"

datatype 'i users_action =
    SetSearchQuery jsstring
  | ClearError
  | ClearUsers
  | FetchUsers_pending
  | FetchUsers_fulfilled "'i user list"
  | FetchUsers_rejected "string option"
  | CreateUser_pending
  | CreateUser_fulfilled "'i user"
  | CreateUser_rejected "string option"
  | UpdateUser_pending
  | UpdateUser_fulfilled "'i user_patch"
  | UpdateUser_rejected "string option"
  | DeleteUser_pending
  | DeleteUser_fulfilled 'i
  | DeleteUser_rejected "string option"

text \<open>\<open>{ ...state.users[index], ...action.payload }\<close>: keys of the payload win.\<close>

definition merge_user :: "'i user \<Rightarrow> 'i user_patch \<Rightarrow> 'i user" where
  "merge_user u p =
     \<lparr>user_id = patch_id p,
      first_name = (case patch_first_name p of Some v \<Rightarrow> Some v | None \<Rightarrow> first_name u),
      last_name = (case patch_last_name p of Some v \<Rightarrow> Some v | None \<Rightarrow> last_name u),
      email = (case patch_email p of Some v \<Rightarrow> Some v | None \<Rightarrow> email u),
      avatar = (case patch_avatar p of Some v \<Rightarrow> Some v | None \<Rightarrow> avatar u)\<rparr>"

text \<open>\<open>findIndex\<close> followed by the assignment at that index, when it is not \<open>-1\<close>.\<close>

fun replace_first :: "('a \<Rightarrow> bool) \<Rightarrow> ('a \<Rightarrow> 'a) \<Rightarrow> 'a list \<Rightarrow> 'a list" where
  "replace_first P f [] = []"
| "replace_first P f (x # xs) = (if P x then f x # xs else x # replace_first P f xs)"

fun usersReducer ::
  "('i \<Rightarrow> 'i \<Rightarrow> bool) \<Rightarrow> 'i users_state \<Rightarrow> 'i users_action \<Rightarrow> 'i users_state" where
  "usersReducer loose_eq st (SetSearchQuery q) = st\<lparr>searchQuery := q\<rparr>"
| "usersReducer loose_eq st ClearError = st\<lparr>error := None\<rparr>"
| "usersReducer loose_eq st ClearUsers = st\<lparr>users := []\<rparr>"
| "usersReducer loose_eq st FetchUsers_pending = st\<lparr>loading := True, error := None\<rparr>"
| "usersReducer loose_eq st (FetchUsers_fulfilled us) =
     st\<lparr>loading := False, users := us, error := None\<rparr>"
| "usersReducer loose_eq st (FetchUsers_rejected msg) = st\<lparr>loading := False, error := msg\<rparr>"
| "usersReducer loose_eq st CreateUser_pending = st\<lparr>loading := True, error := None\<rparr>"
| "usersReducer loose_eq st (CreateUser_fulfilled u) =
     st\<lparr>loading := False, users := users st @ [u], error := None\<rparr>"
| "usersReducer loose_eq st (CreateUser_rejected msg) = st\<lparr>loading := False, error := msg\<rparr>"
| "usersReducer loose_eq st UpdateUser_pending = st\<lparr>loading := True, error := None\<rparr>"
| "usersReducer loose_eq st (UpdateUser_fulfilled p) =
     st\<lparr>loading := False,
        users := replace_first (\<lambda>u. loose_eq (user_id u) (patch_id p))
                   (\<lambda>u. merge_user u p) (users st),
        error := None\<rparr>"
| "usersReducer loose_eq st (UpdateUser_rejected msg) = st\<lparr>loading := False, error := msg\<rparr>"
| "usersReducer loose_eq st DeleteUser_pending = st\<lparr>loading := True, error := None\<rparr>"
| "usersReducer loose_eq st (DeleteUser_fulfilled i) =
     st\<lparr>loading := False,
        users := filter (\<lambda>u. \<not> loose_eq (user_id u) i) (users st),
        error := None\<rparr>"
| "usersReducer loose_eq st (DeleteUser_rejected msg) = st\<lparr>loading := False, error := msg\<rparr>"

text \<open>The four requests of the slice, and the action each dispatches when it is rejected.\<close>

datatype crud = FetchUsers | CreateUser | UpdateUser | DeleteUser

fun rejected :: "crud \<Rightarrow> string option \<Rightarrow> 'i users_action" where
  "rejected FetchUsers msg = FetchUsers_rejected msg"
| "rejected CreateUser msg = CreateUser_rejected msg"
| "rejected UpdateUser msg = UpdateUser_rejected msg"
| "rejected DeleteUser msg = DeleteUser_rejected msg"

subsection \<open>The filtered view\<close>

text \<open>
  \<open>String.prototype.includes\<close>: the search string occurs at some position of the
  receiver. \<open>starts_with\<close> compares at the current position, \<open>str_includes\<close> moves the
  position along the receiver.
\<close>

fun starts_with :: "jsstring \<Rightarrow> jsstring \<Rightarrow> bool" where
  "starts_with s [] = True"
| "starts_with [] (q # qs) = False"
| "starts_with (c # cs) (q # qs) = (c = q \<and> starts_with cs qs)"

fun str_includes :: "jsstring \<Rightarrow> jsstring \<Rightarrow> bool" where
  "str_includes [] q = (q = [])"
| "str_includes (c # cs) q = (starts_with (c # cs) q \<or> str_includes cs q)"

text \<open>
  The selector, with \<open>String.prototype.toLowerCase\<close> as the argument \<open>lower\<close>: the
  function belongs to the language, not to the program, and whatever it returns the
  selector does the following with it.
  \<open>field?.toLowerCase().includes(query)\<close>: a missing field gives \<open>undefined\<close>, which
  is falsy.
\<close>

definition field_includes :: "(jsstring \<Rightarrow> jsstring) \<Rightarrow> jsstring option \<Rightarrow> jsstring \<Rightarrow> bool" where
  "field_includes lower fld query =
     (case fld of None \<Rightarrow> False | Some s \<Rightarrow> str_includes (lower s) query)"

definition selectFilteredUsers ::
  "(jsstring \<Rightarrow> jsstring) \<Rightarrow> 'i users_state \<Rightarrow> 'i user list" where
  "selectFilteredUsers lower st =
     (if searchQuery st = [] then users st
      else let query = lower (searchQuery st)
           in filter (\<lambda>u. field_includes lower (first_name u) query
                         \<or> field_includes lower (last_name u) query
                         \<or> field_includes lower (email u) query) (users st))"

subsection \<open>What \<open>toLowerCase\<close> returns on Basic Latin and Greek capital letters\<close>

text \<open>
  \<open>toLowerCase\<close> follows the case mappings of Unicode that do not depend on the
  locale. On the code units below 128 it adds 32 to the letters \<open>A\<close> to \<open>Z\<close> and
  leaves the rest. A Greek capital letter (U+0391 to U+03A9) becomes the small letter 32
  places up, except the capital sigma (U+03A3): it becomes the final small sigma
  (U+03C2) when a cased letter stands before it, with nothing but case-ignorable
  characters between, and no cased letter stands after it in the same way, and the
  small sigma (U+03C3) otherwise. The function below is \<open>toLowerCase\<close> on strings of
  these two alphabets and is used on no other; code units outside them are left as they
  are, which is not what \<open>toLowerCase\<close> does with every one of them.
\<close>

definition upper_latin :: "nat \<Rightarrow> bool" where
  "upper_latin c \<longleftrightarrow> 65 \<le> c \<and> c \<le> 90"

definition lower_latin :: "nat \<Rightarrow> nat" where
  "lower_latin c = (if upper_latin c then c + 32 else c)"

definition greek_capital :: "nat \<Rightarrow> bool" where
  "greek_capital c \<longleftrightarrow> 913 \<le> c \<and> c \<le> 937 \<and> c \<noteq> 930"

definition cased :: "nat \<Rightarrow> bool" where
  "cased c \<longleftrightarrow>
     upper_latin c \<or> (97 \<le> c \<and> c \<le> 122) \<or> greek_capital c \<or> (945 \<le> c \<and> c \<le> 969)"

text \<open>The case-ignorable characters below 128: \<open>'\<close>, \<open>.\<close>, \<open>:\<close>, \<open>^\<close> and the grave accent.\<close>

definition case_ignorable :: "nat \<Rightarrow> bool" where
  "case_ignorable c \<longleftrightarrow> c = 39 \<or> c = 46 \<or> c = 58 \<or> c = 94 \<or> c = 96"

definition next_is_cased :: "jsstring \<Rightarrow> bool" where
  "next_is_cased s = (case dropWhile case_ignorable s of [] \<Rightarrow> False | c # _ \<Rightarrow> cased c)"

text \<open>\<open>seen\<close> is the part of the string already read, the nearest code unit first.\<close>

fun lower_from :: "jsstring \<Rightarrow> jsstring \<Rightarrow> jsstring" where
  "lower_from seen [] = []"
| "lower_from seen (c # cs) =
     (if c = 931 then (if next_is_cased seen \<and> \<not> next_is_cased cs then 962 else 963)
      else if greek_capital c then c + 32
      else lower_latin c) # lower_from (c # seen) cs"

definition toLowerCase :: "jsstring \<Rightarrow> jsstring" where
  "toLowerCase s = lower_from [] s"

subsection \<open>The specification's words\<close>










section \<open>The UI slice (uiReducers)\<close>

text \<open>
  A notification as \<open>addNotification\<close> builds it. Times are milliseconds, as integers.
  The identifier is \<open>Date.now() + Math.random()\<close>, a real number here (the rounding of
  the JavaScript double is not modelled).
\<close>

record notification =
  n_id :: real
  n_type :: string
  n_message :: "jsstring option"
  n_duration :: int
  n_timestamp :: int

text \<open>
  The payload object of \<open>addNotification\<close>; \<open>None\<close> is a key the payload does not have.
  The user interface passes \<open>type\<close> and \<open>message\<close> only.
\<close>

record notification_payload =
  p_id :: "real option"
  p_type :: "string option"
  p_message :: "jsstring option"
  p_duration :: "int option"
  p_timestamp :: "int option"

record 'i ui_state =
  viewMode :: string
  isUserModalOpen :: bool
  modalMode :: string
  selectedUser :: "'i user option"
  deleteConfirmUser :: "'i user option"
  currentPage :: int
  itemsPerPage :: int
  notifications :: "notification list"
  isDeleting :: bool
  isSaving :: bool
  sidebarOpen :: bool
  theme :: string
  sortField :: "string option"
  sortDirection :: string
  activeFilters :: "string \<rightharpoonup> string"

definition ui_initialState :: "'i ui_state" where
  "ui_initialState =
     \<lparr>viewMode = ''table'',
      isUserModalOpen = False,
      modalMode = ''create'',
      selectedUser = None,
      deleteConfirmUser = None,
      currentPage = 1,
      itemsPerPage = 10,
      notifications = [],
      isDeleting = False,
      isSaving = False,
      sidebarOpen = False,
      theme = ''light'',
      sortField = None,
      sortDirection = ''asc'',
      activeFilters = Map.empty\<rparr>"

definition setViewMode :: "string \<Rightarrow> 'i ui_state \<Rightarrow> 'i ui_state" where
  "setViewMode m st = st\<lparr>viewMode := m\<rparr>"

definition openUserModal :: "string \<Rightarrow> 'i user option \<Rightarrow> 'i ui_state \<Rightarrow> 'i ui_state" where
  "openUserModal m u st = st\<lparr>isUserModalOpen := True, modalMode := m, selectedUser := u\<rparr>"

definition closeUserModal :: "'i ui_state \<Rightarrow> 'i ui_state" where
  "closeUserModal st =
     st\<lparr>isUserModalOpen := False, modalMode := ''create'', selectedUser := None\<rparr>"

definition setDeleteConfirmUser :: "'i user option \<Rightarrow> 'i ui_state \<Rightarrow> 'i ui_state" where
  "setDeleteConfirmUser u st = st\<lparr>deleteConfirmUser := u\<rparr>"

definition clearDeleteConfirmUser :: "'i ui_state \<Rightarrow> 'i ui_state" where
  "clearDeleteConfirmUser st = st\<lparr>deleteConfirmUser := None\<rparr>"

definition setCurrentPage :: "int \<Rightarrow> 'i ui_state \<Rightarrow> 'i ui_state" where
  "setCurrentPage n st = st\<lparr>currentPage := n\<rparr>"

definition setItemsPerPage :: "int \<Rightarrow> 'i ui_state \<Rightarrow> 'i ui_state" where
  "setItemsPerPage n st = st\<lparr>itemsPerPage := n, currentPage := 1\<rparr>"

definition resetPagination :: "'i ui_state \<Rightarrow> 'i ui_state" where
  "resetPagination st = st\<lparr>currentPage := 1\<rparr>"

text \<open>
  The object literal of \<open>addNotification\<close>, in two steps as the source writes it: the
  four defaults first (\<open>x || d\<close> takes \<open>d\<close> when \<open>x\<close> is missing, the empty string or
  zero), then the spread \<open>...action.payload\<close>, which overwrites every key the payload
  has with the payload's own value. \<open>now\<close> is \<open>Date.now()\<close> and \<open>rnd\<close> is
  \<open>Math.random()\<close>.
\<close>

definition notification_defaults :: "int \<Rightarrow> real \<Rightarrow> notification_payload \<Rightarrow> notification" where
  "notification_defaults now rnd p =
     \<lparr>n_id = of_int now + rnd,
      n_type = (case p_type p of None \<Rightarrow> ''info'' | Some t \<Rightarrow> if t = [] then ''info'' else t),
      n_message = p_message p,
      n_duration = (case p_duration p of None \<Rightarrow> 5000 | Some d \<Rightarrow> if d = 0 then 5000 else d),
      n_timestamp = now\<rparr>"

definition spread_payload :: "notification_payload \<Rightarrow> notification \<Rightarrow> notification" where
  "spread_payload p n =
     \<lparr>n_id = (case p_id p of None \<Rightarrow> n_id n | Some v \<Rightarrow> v),
      n_type = (case p_type p of None \<Rightarrow> n_type n | Some v \<Rightarrow> v),
      n_message = (case p_message p of None \<Rightarrow> n_message n | Some v \<Rightarrow> Some v),
      n_duration = (case p_duration p of None \<Rightarrow> n_duration n | Some v \<Rightarrow> v),
      n_timestamp = (case p_timestamp p of None \<Rightarrow> n_timestamp n | Some v \<Rightarrow> v)\<rparr>"

definition new_notification :: "int \<Rightarrow> real \<Rightarrow> notification_payload \<Rightarrow> notification" where
  "new_notification now rnd p = spread_payload p (notification_defaults now rnd p)"

definition addNotification ::
  "int \<Rightarrow> real \<Rightarrow> notification_payload \<Rightarrow> 'i ui_state \<Rightarrow> 'i ui_state" where
  "addNotification now rnd p st =
     st\<lparr>notifications := notifications st @ [new_notification now rnd p]\<rparr>"

definition removeNotification :: "real \<Rightarrow> 'i ui_state \<Rightarrow> 'i ui_state" where
  "removeNotification i st =
     st\<lparr>notifications := filter (\<lambda>n. n_id n \<noteq> i) (notifications st)\<rparr>"

definition clearAllNotifications :: "'i ui_state \<Rightarrow> 'i ui_state" where
  "clearAllNotifications st = st\<lparr>notifications := []\<rparr>"

definition setTheme :: "string \<Rightarrow> 'i ui_state \<Rightarrow> 'i ui_state" where
  "setTheme t st = st\<lparr>theme := t\<rparr>"

definition toggleTheme :: "'i ui_state \<Rightarrow> 'i ui_state" where
  "toggleTheme st = st\<lparr>theme := (if theme st = ''light'' then ''dark'' else ''light'')\<rparr>"

definition resetUIState :: "'i ui_state \<Rightarrow> 'i ui_state" where
  "resetUIState st = ui_initialState\<lparr>theme := theme st\<rparr>"

subsection \<open>The pagination selector\<close>

text \<open>
  The numbers the selector can return for integer arguments: \<open>totalItems / itemsPerPage\<close>
  is \<open>Infinity\<close> or \<open>NaN\<close> when \<open>itemsPerPage\<close> is zero, and \<open>Math.ceil\<close> and
  \<open>Math.max\<close> pass both on.
\<close>

datatype jsnum = Num int | Infinity | NaN

definition Math_ceil_quot :: "nat \<Rightarrow> int \<Rightarrow> jsnum" where
  "Math_ceil_quot totalItems' itemsPerPage' =
     (if itemsPerPage' = 0 then (if totalItems' = 0 then NaN else Infinity)
      else Num \<lceil>real totalItems' / real_of_int itemsPerPage'\<rceil>)"

fun Math_max :: "int \<Rightarrow> jsnum \<Rightarrow> jsnum" where
  "Math_max a (Num b) = Num (max a b)"
| "Math_max a Infinity = Infinity"
| "Math_max a NaN = NaN"

text \<open>\<open>a < b\<close> for an integer \<open>a\<close>: every comparison with \<open>NaN\<close> is false.\<close>

fun js_less :: "int \<Rightarrow> jsnum \<Rightarrow> bool" where
  "js_less a (Num b) = (a < b)"
| "js_less a Infinity = True"
| "js_less a NaN = False"

record pagination_data =
  pd_currentPage :: int
  pd_itemsPerPage :: int
  totalPages :: jsnum
  totalItems :: nat
  startIndex :: int
  endIndex :: int
  hasNextPage :: bool
  hasPrevPage :: bool

text \<open>
  The result function of \<open>selectPaginationData\<close>, with the arguments in the order of the
  source: \<open>(currentPage, itemsPerPage, totalItems)\<close>.
\<close>

definition paginate :: "int \<Rightarrow> int \<Rightarrow> nat \<Rightarrow> pagination_data" where
  "paginate currentPage' itemsPerPage' totalItems' =
     (let totalPages' = Math_max 1 (Math_ceil_quot totalItems' itemsPerPage');
          startIndex' = (currentPage' - 1) * itemsPerPage';
          endIndex' = startIndex' + itemsPerPage'
      in \<lparr>pd_currentPage = currentPage',
          pd_itemsPerPage = itemsPerPage',
          totalPages = totalPages',
          totalItems = totalItems',
          startIndex = startIndex',
          endIndex = endIndex',
          hasNextPage = js_less currentPage' totalPages',
          hasPrevPage = (currentPage' > 1)\<rparr>)"

section \<open>The session slice (authSlices)\<close>

record auth_user_info =
  au_email :: "string option"
  au_name :: "string option"

record auth_state =
  auth_user :: "auth_user_info option"
  token :: "string option"
  isAuthenticated :: bool
  auth_loading :: bool
  auth_error :: "string option"
  loginAttempts :: nat
  lastLoginAttempt :: "int option"

definition auth_initialState :: auth_state where
  "auth_initialState =
     \<lparr>auth_user = None, token = None, isAuthenticated = False, auth_loading = False,
      auth_error = None, loginAttempts = 0, lastLoginAttempt = None\<rparr>"

text \<open>
  The payload of the three fulfilled session actions, \<open>{ token, user }\<close>. The token is
  whatever the thunk read: \<open>None\<close> is a missing (\<open>undefined\<close>) token.
\<close>

record auth_payload =
  pl_token :: "string option"
  pl_user :: auth_user_info

datatype auth_action =
    Logout
  | AuthClearError
  | ResetLoginAttempts
  | IncrementLoginAttempts int
  | AuthUpdateUser auth_user_info
  | LoginUser_pending
  | LoginUser_fulfilled auth_payload
  | LoginUser_rejected "string option" int
  | RegisterUser_pending
  | RegisterUser_fulfilled auth_payload
  | RegisterUser_rejected "string option"
  | LogoutUser_pending
  | LogoutUser_fulfilled
  | LogoutUser_rejected "string option"
  | CheckAuthStatus_pending
  | CheckAuthStatus_fulfilled auth_payload
  | CheckAuthStatus_rejected

definition merge_auth_user :: "auth_user_info \<Rightarrow> auth_user_info \<Rightarrow> auth_user_info" where
  "merge_auth_user u p =
     \<lparr>au_email = (case au_email p of Some v \<Rightarrow> Some v | None \<Rightarrow> au_email u),
      au_name = (case au_name p of Some v \<Rightarrow> Some v | None \<Rightarrow> au_name u)\<rparr>"

text \<open>The integer argument of an action is the value of \<open>Date.now()\<close> in its reducer.\<close>

fun authReducer :: "auth_state \<Rightarrow> auth_action \<Rightarrow> auth_state" where
  "authReducer st Logout =
     st\<lparr>auth_user := None, token := None, isAuthenticated := False, auth_error := None\<rparr>"
| "authReducer st AuthClearError = st\<lparr>auth_error := None\<rparr>"
| "authReducer st ResetLoginAttempts = st\<lparr>loginAttempts := 0, lastLoginAttempt := None\<rparr>"
| "authReducer st (IncrementLoginAttempts now) =
     st\<lparr>loginAttempts := loginAttempts st + 1, lastLoginAttempt := Some now\<rparr>"
| "authReducer st (AuthUpdateUser p) =
     (case auth_user st of None \<Rightarrow> st
      | Some u \<Rightarrow> st\<lparr>auth_user := Some (merge_auth_user u p)\<rparr>)"
| "authReducer st LoginUser_pending = st\<lparr>auth_loading := True, auth_error := None\<rparr>"
| "authReducer st (LoginUser_fulfilled p) =
     st\<lparr>auth_loading := False, auth_user := Some (pl_user p), token := pl_token p,
        isAuthenticated := True, auth_error := None, loginAttempts := 0,
        lastLoginAttempt := None\<rparr>"
| "authReducer st (LoginUser_rejected msg now) =
     st\<lparr>auth_loading := False, auth_error := msg, loginAttempts := loginAttempts st + 1,
        lastLoginAttempt := Some now\<rparr>"
| "authReducer st RegisterUser_pending = st\<lparr>auth_loading := True, auth_error := None\<rparr>"
| "authReducer st (RegisterUser_fulfilled p) =
     st\<lparr>auth_loading := False, auth_user := Some (pl_user p), token := pl_token p,
        isAuthenticated := True, auth_error := None\<rparr>"
| "authReducer st (RegisterUser_rejected msg) = st\<lparr>auth_loading := False, auth_error := msg\<rparr>"
| "authReducer st LogoutUser_pending = st\<lparr>auth_loading := True\<rparr>"
| "authReducer st LogoutUser_fulfilled =
     st\<lparr>auth_loading := False, auth_user := None, token := None, isAuthenticated := False,
        auth_error := None, loginAttempts := 0, lastLoginAttempt := None\<rparr>"
| "authReducer st (LogoutUser_rejected msg) =
     st\<lparr>auth_loading := False, auth_error := msg, auth_user := None, token := None,
        isAuthenticated := False\<rparr>"
| "authReducer st CheckAuthStatus_pending = st\<lparr>auth_loading := True\<rparr>"
| "authReducer st (CheckAuthStatus_fulfilled p) =
     st\<lparr>auth_loading := False, auth_user := Some (pl_user p), token := pl_token p,
        isAuthenticated := True, auth_error := None\<rparr>"
| "authReducer st CheckAuthStatus_rejected =
     st\<lparr>auth_loading := False, auth_user := None, token := None, isAuthenticated := False\<rparr>"

text \<open>The states the store reaches from the initial state, one action after another.\<close>

definition auth_run :: "auth_action list \<Rightarrow> auth_state" where
  "auth_run acts = foldl authReducer auth_initialState acts"

text \<open>The token a fulfilled action carries; \<open>None\<close> for every other action.\<close>

fun fulfilled_token :: "auth_action \<Rightarrow> string option option" where
  "fulfilled_token (LoginUser_fulfilled p) = Some (pl_token p)"
| "fulfilled_token (RegisterUser_fulfilled p) = Some (pl_token p)"
| "fulfilled_token (CheckAuthStatus_fulfilled p) = Some (pl_token p)"
| "fulfilled_token a = None"

subsection \<open>The thunks that produce the fulfilled payloads\<close>

text \<open>
  The answer of the remote service to \<open>POST /login\<close> as the thunk reads it:
  \<open>response.ok\<close>, and the \<open>token\<close> and \<open>error\<close> keys of the JSON body
  (\<open>None\<close> when the body has no such key). A request that fails in transport, or a body
  that is not JSON, throws with a message.
\<close>

datatype login_response =
    Response bool "string option" "string option"
  | Thrown string

text \<open>\<open>x || d\<close> on an optional string: the empty string is falsy too.\<close>

definition or_default :: "string option \<Rightarrow> string \<Rightarrow> string" where
  "or_default x d = (case x of None \<Rightarrow> d | Some v \<Rightarrow> if v = [] then d else v)"

text \<open>
  \<open>loginUser\<close>: the action the thunk ends with, and the \<open>authToken\<close> entry of
  \<open>localStorage\<close> after it. The token is stored only when it is truthy, but the thunk
  fulfils on every \<open>ok\<close> response.
\<close>

definition loginUser ::
  "string option \<Rightarrow> int \<Rightarrow> login_response \<Rightarrow> string option \<Rightarrow> auth_action \<times> string option" where
  "loginUser cred_email now resp storage =
     (case resp of
        Thrown msg \<Rightarrow> (LoginUser_rejected (Some msg) now, storage)
      | Response ok tok err \<Rightarrow>
          if \<not> ok then (LoginUser_rejected (Some (or_default err ''Login failed'')) now, storage)
          else (LoginUser_fulfilled \<lparr>pl_token = tok,
                                     pl_user = \<lparr>au_email = cred_email, au_name = None\<rparr>\<rparr>,
                if tok \<noteq> None \<and> tok \<noteq> Some [] then tok else storage))"

text \<open>
  \<open>checkAuthStatus\<close>: it fulfils only with the non-empty token found in
  \<open>localStorage\<close>, and removes the entry when it rejects.
\<close>

definition checkAuthStatus :: "string option \<Rightarrow> auth_action \<times> string option" where
  "checkAuthStatus storage =
     (if storage = None \<or> storage = Some [] then (CheckAuthStatus_rejected, None)
      else (CheckAuthStatus_fulfilled
              \<lparr>pl_token = storage,
               pl_user = \<lparr>au_email = Some ''user@example.com'', au_name = Some ''Demo User''\<rparr>\<rparr>,
            storage))"

section \<open>The store and the handlers of the users list (store.js, UserList)\<close>

record 'i root_state =
  users_slice :: "'i users_state"
  auth_slice :: auth_state
  ui_slice :: "'i ui_state"

definition root_initialState :: "'i root_state" where
  "root_initialState =
     \<lparr>users_slice = users_initialState, auth_slice = auth_initialState,
      ui_slice = ui_initialState\<rparr>"

text \<open>
  \<open>selectPaginationData\<close> on the store: its third input selector is the length of
  \<open>state.users.users\<close>, the whole collection and not the filtered view.
\<close>

definition selectPaginationData :: "'i root_state \<Rightarrow> pagination_data" where
  "selectPaginationData st =
     paginate (currentPage (ui_slice st)) (itemsPerPage (ui_slice st))
       (length (users (users_slice st)))"

text \<open>A missing value inside a template literal or a string concatenation prints as \<open>undefined\<close>.\<close>

definition show_string :: "jsstring option \<Rightarrow> jsstring" where
  "show_string x = (case x of None \<Rightarrow> utf16 ''undefined'' | Some v \<Rightarrow> v)"

definition show_error :: "string option \<Rightarrow> jsstring" where
  "show_error x = (case x of None \<Rightarrow> utf16 ''undefined'' | Some v \<Rightarrow> utf16 v)"

definition notify :: "string \<Rightarrow> jsstring \<Rightarrow> notification_payload" where
  "notify t m =
     \<lparr>p_id = None, p_type = Some t, p_message = Some m, p_duration = None, p_timestamp = None\<rparr>"

text \<open>
  The outcome of a request as the thunk sees it: the service accepted it, or the thunk
  rejected with a message. A handler runs here in one piece, the answer of the service
  given as an argument; \<open>now\<close> and \<open>rnd\<close> are \<open>Date.now()\<close> and \<open>Math.random()\<close>
  in the notification it adds.
\<close>

datatype outcome = Accepted | Failed "string option"

text \<open>The effect on mount and \<open>handleRetry\<close> dispatch \<open>fetchUsers\<close>.\<close>

definition fetchUsers ::
  "('i \<Rightarrow> 'i \<Rightarrow> bool) \<Rightarrow> (string option + 'i user list) \<Rightarrow> 'i root_state \<Rightarrow> 'i root_state" where
  "fetchUsers loose_eq answer st =
     (let pending = usersReducer loose_eq (users_slice st) FetchUsers_pending
      in st\<lparr>users_slice :=
              (case answer of
                 Inl msg \<Rightarrow> usersReducer loose_eq pending (FetchUsers_rejected msg)
               | Inr us \<Rightarrow> usersReducer loose_eq pending (FetchUsers_fulfilled us))\<rparr>)"

definition handleDeleteUser :: "'i user \<Rightarrow> 'i root_state \<Rightarrow> 'i root_state" where
  "handleDeleteUser u st = st\<lparr>ui_slice := setDeleteConfirmUser (Some u) (ui_slice st)\<rparr>"

definition confirmDelete ::
  "('i \<Rightarrow> 'i \<Rightarrow> bool) \<Rightarrow> outcome \<Rightarrow> int \<Rightarrow> real \<Rightarrow> 'i root_state \<Rightarrow> 'i root_state" where
  "confirmDelete loose_eq answer now rnd st =
     (case deleteConfirmUser (ui_slice st) of
        None \<Rightarrow> st
      | Some deleteConfirm \<Rightarrow>
          let pending = usersReducer loose_eq (users_slice st) DeleteUser_pending;
              st' =
                (case answer of
                   Accepted \<Rightarrow>
                     st\<lparr>users_slice :=
                          usersReducer loose_eq pending
                            (DeleteUser_fulfilled (user_id deleteConfirm)),
                        ui_slice :=
                          resetPagination
                            (addNotification now rnd
                               (notify ''success''
                                  (show_string (first_name deleteConfirm) @ utf16 '' '' @
                                   show_string (last_name deleteConfirm) @
                                   utf16 '' deleted successfully''))
                               (ui_slice st))\<rparr>
                 | Failed msg \<Rightarrow>
                     st\<lparr>users_slice := usersReducer loose_eq pending (DeleteUser_rejected msg),
                        ui_slice :=
                          addNotification now rnd
                            (notify ''error''
                               (utf16 ''Failed to delete user: '' @ show_error msg))
                            (ui_slice st)\<rparr>)
          in st'\<lparr>ui_slice := clearDeleteConfirmUser (ui_slice st')\<rparr>)"

definition handleSearch ::
  "('i \<Rightarrow> 'i \<Rightarrow> bool) \<Rightarrow> jsstring \<Rightarrow> 'i root_state \<Rightarrow> 'i root_state" where
  "handleSearch loose_eq q st =
     st\<lparr>users_slice := usersReducer loose_eq (users_slice st) (SetSearchQuery q),
        ui_slice := resetPagination (ui_slice st)\<rparr>"

definition handlePageChange :: "int \<Rightarrow> 'i root_state \<Rightarrow> 'i root_state" where
  "handlePageChange page st = st\<lparr>ui_slice := setCurrentPage page (ui_slice st)\<rparr>"

definition handlePrevious :: "'i root_state \<Rightarrow> 'i root_state" where
  "handlePrevious st =
     (let pd = selectPaginationData st
      in if pd_currentPage pd > 1
         then st\<lparr>ui_slice := setCurrentPage (pd_currentPage pd - 1) (ui_slice st)\<rparr>
         else st)"

definition handleNext :: "'i root_state \<Rightarrow> 'i root_state" where
  "handleNext st =
     (let pd = selectPaginationData st
      in if js_less (pd_currentPage pd) (totalPages pd)
         then st\<lparr>ui_slice := setCurrentPage (pd_currentPage pd + 1) (ui_slice st)\<rparr>
         else st)"

text \<open>
  The pagination buttons are rendered in the table view, when the store is not loading
  and the filtered list is longer than a page: \<open>users.length > itemsPerPage\<close>, where
  \<open>users\<close> is \<open>selectFilteredUsers\<close>.
\<close>

definition pagination_shown :: "(jsstring \<Rightarrow> jsstring) \<Rightarrow> 'i root_state \<Rightarrow> bool" where
  "pagination_shown lower st \<longleftrightarrow>
     \<not> loading (users_slice st) \<and> viewMode (ui_slice st) = ''table'' \<and>
     int (length (selectFilteredUsers lower (users_slice st))) > itemsPerPage (ui_slice st)"

text \<open>\<open>users.slice(startIndex, endIndex)\<close> for indices that are not negative.\<close>

definition currentUsers :: "(jsstring \<Rightarrow> jsstring) \<Rightarrow> 'i root_state \<Rightarrow> 'i user list" where
  "currentUsers lower st =
     (let pd = selectPaginationData st
      in take (nat (endIndex pd) - nat (startIndex pd))
           (drop (nat (startIndex pd)) (selectFilteredUsers lower (users_slice st))))"

text \<open>
  The specification's words, for comparison: the number of pages of the filtered view,
  and a page that lies in \<open>[1, totalPages]\<close>.
\<close>

definition filteredTotalPages :: "(jsstring \<Rightarrow> jsstring) \<Rightarrow> 'i root_state \<Rightarrow> jsnum" where
  "filteredTotalPages lower st =
     Math_max 1 (Math_ceil_quot (length (selectFilteredUsers lower (users_slice st)))
                   (itemsPerPage (ui_slice st)))"

fun within_pages :: "int \<Rightarrow> jsnum \<Rightarrow> bool" where
  "within_pages p (Num t) = (1 \<le> p \<and> p \<le> t)"
| "within_pages p Infinity = (1 \<le> p)"
| "within_pages p NaN = False"

section \<open>Notifications on a simulated clock (NotificationComponent)\<close>

text \<open>
  The store keeps no clock: a notification leaves the queue through
  \<open>removeNotification\<close> only, which the component dispatches from its close button and
  from the timers of its effect. The system below is the UI slice together with the
  pending \<open>setTimeout\<close> callbacks (the time each is due at, and the identifier it
  removes), the time, whether the component is mounted, and whether the
  \<open>notifications\<close> array has been replaced since the component last rendered
  (\<open>stale\<close>).
\<close>

record 'i notif_sys =
  sys_ui :: "'i ui_state"
  timers :: "(int \<times> real) list"
  clock :: int
  mounted :: bool
  stale :: bool

text \<open>
  The body of the effect at time \<open>now\<close>: one timer for every notification whose
  duration is positive. The function the callback of \<open>forEach\<close> returns is dropped by
  \<open>forEach\<close>, so no timer is ever cleared.
\<close>

definition effect_timers :: "int \<Rightarrow> notification list \<Rightarrow> (int \<times> real) list" where
  "effect_timers now ns =
     map (\<lambda>n. (now + n_duration n, n_id n)) (filter (\<lambda>n. n_duration n > 0) ns)"

text \<open>
  A render of the mounted component and the effect that follows it. The effect depends
  on the \<open>notifications\<close> array, which \<open>addNotification\<close> and \<open>removeNotification\<close>
  both replace: a dispatch only marks the component stale, and the effect runs when the
  component, still mounted, renders next; dispatches and an unmount inside one handler
  come before that render.
\<close>

definition render :: "'i notif_sys \<Rightarrow> 'i notif_sys" where
  "render sys =
     sys\<lparr>timers := timers sys @ effect_timers (clock sys) (notifications (sys_ui sys)),
         stale := False\<rparr>"

datatype event =
    Add notification_payload real
  | Close real
  | Fire
  | Render
  | Advance int
  | Mount
  | Unmount

text \<open>
  One event. \<open>Add p rnd\<close> dispatches \<open>addNotification(p)\<close>; \<open>Close i\<close> is the close
  button of a notification of the mounted component; \<open>Fire\<close> runs the first pending
  timer that is due; \<open>Render\<close> is the next render of the mounted, stale component;
  \<open>Advance t\<close> lets the time pass up to \<open>t\<close>, no further than the next pending timer
  and not while a render is outstanding; \<open>Mount\<close> mounts the component, which renders
  and runs its effect; \<open>Unmount\<close> unmounts it. An event that cannot happen in the state
  gives \<open>None\<close>.
\<close>

fun step :: "'i notif_sys \<Rightarrow> event \<Rightarrow> 'i notif_sys option" where
  "step sys (Add p rnd) =
     Some (sys\<lparr>sys_ui := addNotification (clock sys) rnd p (sys_ui sys), stale := True\<rparr>)"
| "step sys (Close i) =
     (if mounted sys \<and> i \<in> n_id ` set (notifications (sys_ui sys))
      then Some (sys\<lparr>sys_ui := removeNotification i (sys_ui sys), stale := True\<rparr>)
      else None)"
| "step sys Fire =
     (case find (\<lambda>(due, i). due \<le> clock sys) (timers sys) of
        None \<Rightarrow> None
      | Some (due, i) \<Rightarrow>
          Some (sys\<lparr>timers := remove1 (due, i) (timers sys),
                    sys_ui := removeNotification i (sys_ui sys), stale := True\<rparr>))"
| "step sys Render = (if mounted sys \<and> stale sys then Some (render sys) else None)"
| "step sys (Advance t) =
     (if clock sys \<le> t \<and> \<not> (mounted sys \<and> stale sys) \<and>
         list_all (\<lambda>(due, i). t \<le> due) (timers sys)
      then Some (sys\<lparr>clock := t\<rparr>) else None)"
| "step sys Mount = (if mounted sys then None else Some (render (sys\<lparr>mounted := True\<rparr>)))"
| "step sys Unmount = (if mounted sys then Some (sys\<lparr>mounted := False\<rparr>) else None)"

fun run_events :: "'i notif_sys \<Rightarrow> event list \<Rightarrow> 'i notif_sys option" where
  "run_events sys [] = Some sys"
| "run_events sys (e # es) =
     (case step sys e of None \<Rightarrow> None | Some sys' \<Rightarrow> run_events sys' es)"

definition queue_ids :: "'i notif_sys \<Rightarrow> real set" where
  "queue_ids sys = n_id ` set (notifications (sys_ui sys))"

text \<open>
  Along the run of \<open>es\<close> from \<open>sys\<close>, no \<open>Add\<close> gives its notification the identifier
  \<open>i\<close>: the identifiers the reducer draws are taken to be fresh.
\<close>

fun no_readd :: "real \<Rightarrow> 'i notif_sys \<Rightarrow> event list \<Rightarrow> bool" where
  "no_readd i sys [] = True"
| "no_readd i sys (e # es) =
     ((case e of Add p rnd \<Rightarrow> n_id (new_notification (clock sys) rnd p) \<noteq> i | _ \<Rightarrow> True) \<and>
      (case step sys e of None \<Rightarrow> True | Some sys' \<Rightarrow> no_readd i sys' es))"

text \<open>The component before any notification, mounted with the users list and rendered.\<close>

definition notif_initial :: "'i notif_sys" where
  "notif_initial =
     \<lparr>sys_ui = ui_initialState, timers = [], clock = 0, mounted = True, stale = False\<rparr>"

text \<open>
  Two invariants of a run. \<open>persists n\<close>: the notification \<open>n\<close> is queued, every queued
  notification under its identifier has no positive duration, and no pending timer
  removes that identifier. \<open>expiring i due\<close>: either a timer that removes \<open>i\<close> is
  pending and not overdue, or no notification with the identifier \<open>i\<close> is queued.
\<close>

definition persists :: "notification \<Rightarrow> 'i notif_sys \<Rightarrow> bool" where
  "persists n sys \<longleftrightarrow>
     n \<in> set (notifications (sys_ui sys)) \<and>
     (\<forall>m \<in> set (notifications (sys_ui sys)). n_id m = n_id n \<longrightarrow> n_duration m \<le> 0) \<and>
     n_id n \<notin> snd ` set (timers sys)"

definition expiring :: "real \<Rightarrow> int \<Rightarrow> 'i notif_sys \<Rightarrow> bool" where
  "expiring i due sys \<longleftrightarrow>
     ((due, i) \<in> set (timers sys) \<and> clock sys \<le> due) \<or> i \<notin> queue_ids sys"

section \<open>Example data\<close>

definition eve :: "int user" where
  "eve = \<lparr>user_id = 4, first_name = Some (utf16 ''Eve''), last_name = Some (utf16 ''Holt''),
           email = Some (utf16 ''eve.holt@reqres.in''), avatar = None\<rparr>"

definition tom :: "int user" where
  "tom = \<lparr>user_id = 5, first_name = Some (utf16 ''Tom''), last_name = None,
           email = Some (utf16 ''tom@reqres.in''), avatar = None\<rparr>"

text \<open>A second record under the identifier of \<open>eve\<close>.\<close>

definition eve_twin :: "int user" where
  "eve_twin = \<lparr>user_id = 4, first_name = Some (utf16 ''Eva''), last_name = None,
                email = None, avatar = None\<rparr>"



definition directory :: "int user list \<Rightarrow> jsstring \<Rightarrow> int users_state" where
  "directory us q = \<lparr>users = us, loading = False, error = None, searchQuery = q\<rparr>"

definition edit_state :: "int ui_state" where
  "edit_state =
     ui_initialState\<lparr>isUserModalOpen := True, modalMode := ''edit'', selectedUser := Some eve,
                     currentPage := 3, viewMode := ''card'', theme := ''dark'',
                     sidebarOpen := True\<rparr>"

text \<open>Twenty-one users, the first eleven of them called Ann.\<close>

definition numbered_user :: "nat \<Rightarrow> int user" where
  "numbered_user k =
     \<lparr>user_id = int k, first_name = Some (if k < 11 then utf16 ''Ann'' else utf16 ''Bob''),
      last_name = Some (utf16 ''Lee''), email = None, avatar = None\<rparr>"

text \<open>
  The list is fetched, the search box receives \<open>an\<close>, and the button for the next page
  is clicked twice.
\<close>

definition searched :: "int root_state" where
  "searched =
     handleSearch (=) (utf16 ''an'')
       (fetchUsers (=) (Inr (map numbered_user [0..<21])) root_initialState)"

definition stranded :: "int root_state" where
  "stranded = handleNext (handleNext searched)"

definition login_with_token :: "auth_action list" where
  "login_with_token =
     [LoginUser_pending,
      fst (loginUser (Some ''eve.holt@reqres.in'') 0
             (Response True (Some ''QpwL5tke4Pnpja7X4'') None) None)]"

text \<open>The service answers \<open>POST /login\<close> with an \<open>ok\<close> status and a body without a token.\<close>

definition login_without_token :: "auth_action list" where
  "login_without_token =
     [LoginUser_pending,
      fst (loginUser (Some ''eve.holt@reqres.in'') 0 (Response True None None) None)]"

definition persistent_payload :: notification_payload where
  "persistent_payload = (notify ''info'' (utf16 ''Saved''))\<lparr>p_duration := Some 0\<rparr>"

definition timed_payload :: notification_payload where
  "timed_payload =
     (notify ''success'' (utf16 ''User created successfully''))\<lparr>p_duration := Some 5000\<rparr>"

text \<open>
  The users list is unmounted by a logout while a request of \<open>confirmDelete\<close> is still
  awaited; the request then succeeds and the handler adds its notification, as it does
  in the source, without a duration of its own.
\<close>

definition deleted_payload :: notification_payload where
  "deleted_payload = notify ''success'' (utf16 ''Eve Holt deleted successfully'')"

definition logged_out_run :: "notification_payload \<Rightarrow> event list" where
  "logged_out_run p = [Unmount, Add p (1/2), Advance 6000]"

text \<open>
  \<open>handleLogout\<close>: the notification is added and \<open>onLogout\<close> unmounts the list in the
  same handler, before the component renders again.
\<close>

definition logout_payload :: notification_payload where
  "logout_payload = notify ''info'' (utf16 ''You have been logged out successfully'')"

definition logout_run :: "event list" where
  "logout_run = [Add logout_payload (1/2), Unmount, Advance 6000]"

definition later_events :: "event list" where
  "later_events =
     [Render, Advance 100, Add timed_payload (1/4), Render, Advance 5100, Fire, Render,
      Advance 10000]"

definition expiry_events :: "event list" where
  "expiry_events = [Advance 5000, Fire, Render]"

section \<open>The filtered view and the collection\<close>

















text \<open>
  Claim C5, as the reducer has it. After \<open>deleteUser.fulfilled\<close> no record with the
  identifier remains, and the collection is shorter by the number of records that
  carried it: by exactly one when exactly one record did, and not at all (the collection
  is unchanged) when none did.
\<close>

theorem delete_fulfilled_removes:
  "(let after = users (usersReducer loose_eq st (DeleteUser_fulfilled i));
        hits = filter (\<lambda>u. loose_eq (user_id u) i) (users st)
    in (\<forall>u \<in> set after. \<not> loose_eq (user_id u) i) \<and>
       length after + length hits = length (users st) \<and>
       (length hits = 1 \<longrightarrow> length after = length (users st) - 1) \<and>
       (hits = [] \<longrightarrow> after = users st))"
proof -
  have split_length:
    "length (filter (\<lambda>u. \<not> loose_eq (user_id u) i) xs)
       + length (filter (\<lambda>u. loose_eq (user_id u) i) xs) = length xs"
    for xs :: "'a user list"
    by (induction xs) simp_all
  have none_hit:
    "filter (\<lambda>u. loose_eq (user_id u) i) xs = []
       \<Longrightarrow> filter (\<lambda>u. \<not> loose_eq (user_id u) i) xs = xs"
    for xs :: "'a user list"
    by (induction xs) (simp_all split: if_splits)
  show ?thesis
    using split_length [of "users st"] none_hit [of "users st"]
    by (auto simp: Let_def)
qed

theorem delete_fulfilled_removes_witness:
  "users (usersReducer (=) (directory [eve, tom] []) (DeleteUser_fulfilled 4)) = [tom] \<and>
   users (usersReducer (=) (directory [eve, tom] []) (DeleteUser_fulfilled 9)) = [eve, tom]"
  using delete_fulfilled_removes
          [where loose_eq = "(=)" and i = 4 and st = "directory [eve, tom] []"]
        delete_fulfilled_removes
          [where loose_eq = "(=)" and i = 9 and st = "directory [eve, tom] []"]
  by (simp add: directory_def eve_def tom_def)

text \<open>
  Two records under one identifier: the record is present, the deletion succeeds, and
  the collection is shorter by two.
\<close>

theorem delete_duplicate_ids:
  "length (users (usersReducer (=) (directory [eve, tom, eve_twin] []) (DeleteUser_fulfilled 4)))
     \<noteq> length (users (directory [eve, tom, eve_twin] [])) - 1"
  by (simp add: directory_def eve_def tom_def eve_twin_def)

text \<open>
  Claim C6. For every state of the users slice and each of the four requests, the
  rejected action leaves the collection and the search query as they were: it sets the
  error to the message of the failure and clears the loading flag, and changes nothing
  else.
\<close>

theorem rejected_keeps_collection:
  "usersReducer loose_eq st (rejected c msg) = st\<lparr>loading := False, error := msg\<rparr> \<and>
   users (usersReducer loose_eq st (rejected c msg)) = users st \<and>
   searchQuery (usersReducer loose_eq st (rejected c msg)) = searchQuery st \<and>
   error (usersReducer loose_eq st (rejected c msg)) = msg \<and>
   \<not> loading (usersReducer loose_eq st (rejected c msg))"
  by (cases c) simp_all

theorem rejected_keeps_collection_witness:
  "usersReducer (=) ((directory [eve, tom] (utf16 ''ev''))\<lparr>loading := True\<rparr>)
     (DeleteUser_rejected (Some ''Failed to delete user''))
     = \<lparr>users = [eve, tom], loading = False, error = Some ''Failed to delete user'',
        searchQuery = utf16 ''ev''\<rparr>"
  using rejected_keeps_collection
          [of "(=)" "(directory [eve, tom] (utf16 ''ev''))\<lparr>loading := True\<rparr>" DeleteUser
              "Some ''Failed to delete user''"]
  by (simp add: directory_def)

section \<open>Pagination\<close>

text \<open>
  Claim C3. For a positive page size the selector returns
  \<open>totalPages = max(1, ceil(totalItems / itemsPerPage))\<close>,
  \<open>startIndex = (currentPage - 1) * itemsPerPage\<close> and
  \<open>endIndex = startIndex + itemsPerPage\<close>, and the number of pages is never zero; for
  25 items, 10 per page, on page 1 it returns 3 pages and the window from 0 to 10, and
  for no items 1 page and the same window.
\<close>

theorem paginate_spec:
  "(0 < itemsPerPage' \<longrightarrow>
     totalPages (paginate currentPage' itemsPerPage' totalItems')
       = Num (max 1 \<lceil>real totalItems' / real_of_int itemsPerPage'\<rceil>) \<and>
     startIndex (paginate currentPage' itemsPerPage' totalItems')
       = (currentPage' - 1) * itemsPerPage' \<and>
     endIndex (paginate currentPage' itemsPerPage' totalItems')
       = startIndex (paginate currentPage' itemsPerPage' totalItems') + itemsPerPage' \<and>
     totalPages (paginate currentPage' itemsPerPage' totalItems') \<noteq> Num 0) \<and>
   totalPages (paginate 1 10 25) = Num 3 \<and> startIndex (paginate 1 10 25) = 0 \<and>
   endIndex (paginate 1 10 25) = 10 \<and>
   totalPages (paginate 1 10 0) = Num 1 \<and> startIndex (paginate 1 10 0) = 0 \<and>
   endIndex (paginate 1 10 0) = 10"
proof -
  have never_zero: "max (1::int) x \<noteq> 0" for x
    by linarith
  show ?thesis
    by (simp add: paginate_def Math_ceil_quot_def Let_def never_zero)
qed

theorem paginate_spec_witness:
  "(0::int) < 10 \<and> totalPages (paginate 3 10 21) = Num 3 \<and>
   startIndex (paginate 3 10 21) = 20 \<and> endIndex (paginate 3 10 21) = 30"
  using paginate_spec [of 10 3 21] by simp

lemma handleSearch_page:
  "currentPage (ui_slice (handleSearch loose_eq q st)) = 1 \<and>
   itemsPerPage (ui_slice (handleSearch loose_eq q st)) = itemsPerPage (ui_slice st)"
  by (simp add: handleSearch_def resetPagination_def)

lemma confirmDelete_page:
  "deleteConfirmUser (ui_slice st) = Some u \<Longrightarrow>
   currentPage (ui_slice (confirmDelete loose_eq Accepted now rnd st)) = 1 \<and>
   itemsPerPage (ui_slice (confirmDelete loose_eq Accepted now rnd st))
     = itemsPerPage (ui_slice st) \<and>
   users (users_slice (confirmDelete loose_eq Accepted now rnd st))
     = filter (\<lambda>v. \<not> loose_eq (user_id v) (user_id u)) (users (users_slice st))"
  by (simp add: confirmDelete_def Let_def resetPagination_def addNotification_def
      clearDeleteConfirmUser_def)

lemma searched_ui: "ui_slice searched = ui_initialState"
  by (simp add: searched_def handleSearch_def fetchUsers_def root_initialState_def
      resetPagination_def ui_initialState_def)

lemma searched_users:
  "users_slice searched =
     \<lparr>users = map numbered_user [0..<21], loading = False, error = None, searchQuery = utf16 ''an''\<rparr>"
  by (simp add: searched_def handleSearch_def fetchUsers_def root_initialState_def
      users_initialState_def)

lemma first_next: "handleNext searched = searched\<lparr>ui_slice := ui_initialState\<lparr>currentPage := 2\<rparr>\<rparr>"
  by (simp add: handleNext_def selectPaginationData_def searched_ui searched_users paginate_def
      Math_ceil_quot_def setCurrentPage_def ui_initialState_def)

lemma second_next: "stranded = searched\<lparr>ui_slice := ui_initialState\<lparr>currentPage := 3\<rparr>\<rparr>"
  by (simp add: stranded_def first_next handleNext_def selectPaginationData_def searched_ui
      searched_users paginate_def Math_ceil_quot_def setCurrentPage_def ui_initialState_def)

text \<open>
  Claim C1 on the code: a state the handlers reach in which the page lies beyond the last
  page of the filtered view. Twenty-one users are fetched and the query \<open>an\<close> leaves
  eleven of them, so the pagination buttons are shown; \<open>handleNext\<close> compares the page
  with the \<open>totalPages\<close> of \<open>selectPaginationData\<close>, three pages counted on the whole
  collection, and two clicks reach page 3 of a filtered view of two pages, where the
  table has no row.
\<close>

theorem page_beyond_filtered_view:
  "pagination_shown toLowerCase searched \<and> pagination_shown toLowerCase (handleNext searched) \<and>
   currentPage (ui_slice stranded) = 3 \<and> filteredTotalPages toLowerCase stranded = Num 2 \<and>
   \<not> within_pages (currentPage (ui_slice stranded)) (filteredTotalPages toLowerCase stranded) \<and>
   currentUsers toLowerCase stranded = []"
proof -
  have filtered:
    "length (selectFilteredUsers toLowerCase
       \<lparr>users = map numbered_user [0..<21], loading = False, error = None,
        searchQuery = utf16 ''an''\<rparr>) = 11"
    by code_simp
  have shown: "pagination_shown toLowerCase searched"
    "pagination_shown toLowerCase (handleNext searched)"
    by (simp_all add: pagination_shown_def first_next filtered searched_ui searched_users
        ui_initialState_def)
  have page: "currentPage (ui_slice stranded) = 3"
    by (simp add: second_next ui_initialState_def)
  have pages: "filteredTotalPages toLowerCase stranded = Num 2"
    by (simp add: filteredTotalPages_def second_next filtered Math_ceil_quot_def searched_users
        ui_initialState_def)
  have empty: "currentUsers toLowerCase stranded = []"
    by (simp add: currentUsers_def selectPaginationData_def paginate_def Let_def second_next
        filtered searched_users ui_initialState_def)
  show ?thesis
    using shown page pages empty by simp
qed

section \<open>The UI slice\<close>

text \<open>
  Claim C8. Whatever the modal state was (open or closed, create or edit, with or without
  a selected user), \<open>closeUserModal\<close> gives a closed modal in mode \<open>create\<close> with no
  selected user.
\<close>

theorem closeUserModal_resets:
  "\<not> isUserModalOpen (closeUserModal st) \<and> modalMode (closeUserModal st) = ''create'' \<and>
   selectedUser (closeUserModal st) = None"
  by (simp add: closeUserModal_def)

theorem closeUserModal_resets_witness:
  "isUserModalOpen edit_state \<and> modalMode edit_state = ''edit'' \<and>
   selectedUser edit_state = Some eve \<and>
   \<not> isUserModalOpen (closeUserModal edit_state) \<and>
   modalMode (closeUserModal edit_state) = ''create'' \<and>
   selectedUser (closeUserModal edit_state) = None"
  using closeUserModal_resets [of edit_state] by (simp add: edit_state_def)

text \<open>
  Claim C9. For every state and every \<open>n\<close>, \<open>setItemsPerPage n\<close> stores \<open>n\<close> as the
  page size and sets the current page to 1, whatever the page was.
\<close>

theorem setItemsPerPage_resets_page:
  "itemsPerPage (setItemsPerPage n st) = n \<and> currentPage (setItemsPerPage n st) = 1"
  by (simp add: setItemsPerPage_def)

theorem setItemsPerPage_resets_page_witness:
  "currentPage edit_state = 3 \<and> itemsPerPage (setItemsPerPage 25 edit_state) = 25 \<and>
   currentPage (setItemsPerPage 25 edit_state) = 1"
  using setItemsPerPage_resets_page [of 25 edit_state] by (simp add: edit_state_def)

text \<open>
  Claim C10. \<open>resetUIState\<close> puts every field of the UI slice back to its initial
  value (view mode, modal, delete target, pagination, notifications, loading flags,
  sidebar, sorting, filters), except the theme, which keeps the value it had.
\<close>

theorem resetUIState_keeps_theme:
  "viewMode (resetUIState st) = ''table'' \<and>
   \<not> isUserModalOpen (resetUIState st) \<and>
   modalMode (resetUIState st) = ''create'' \<and>
   selectedUser (resetUIState st) = None \<and>
   deleteConfirmUser (resetUIState st) = None \<and>
   currentPage (resetUIState st) = 1 \<and>
   itemsPerPage (resetUIState st) = 10 \<and>
   notifications (resetUIState st) = [] \<and>
   \<not> isDeleting (resetUIState st) \<and>
   \<not> isSaving (resetUIState st) \<and>
   \<not> sidebarOpen (resetUIState st) \<and>
   sortField (resetUIState st) = None \<and>
   sortDirection (resetUIState st) = ''asc'' \<and>
   activeFilters (resetUIState st) = Map.empty \<and>
   theme (resetUIState st) = theme st \<and>
   resetUIState st = ui_initialState\<lparr>theme := theme st\<rparr>"
  by (simp add: resetUIState_def ui_initialState_def)

theorem resetUIState_keeps_theme_witness:
  "theme edit_state = ''dark'' \<and> theme (resetUIState edit_state) = ''dark'' \<and>
   viewMode edit_state = ''card'' \<and> viewMode (resetUIState edit_state) = ''table'' \<and>
   currentPage edit_state = 3 \<and> currentPage (resetUIState edit_state) = 1 \<and>
   selectedUser edit_state = Some eve \<and> selectedUser (resetUIState edit_state) = None"
  using resetUIState_keeps_theme [of edit_state] by (simp add: edit_state_def ui_initialState_def)

section \<open>The session slice\<close>

lemma auth_run_snoc: "auth_run (acts @ [a]) = authReducer (auth_run acts) a"
  by (simp add: auth_run_def)

lemma token_authenticated_step:
  "(token st \<noteq> None \<longrightarrow> isAuthenticated st) \<Longrightarrow>
   token (authReducer st a) \<noteq> None \<longrightarrow> isAuthenticated (authReducer st a)"
  by (cases a) (simp_all split: option.split)

lemma authenticated_token_step:
  "(isAuthenticated st \<longrightarrow> token st \<noteq> None) \<Longrightarrow> fulfilled_token a \<noteq> Some None \<Longrightarrow>
   isAuthenticated (authReducer st a) \<longrightarrow> token (authReducer st a) \<noteq> None"
  by (cases a) (simp_all split: option.split)

lemma token_origin_step:
  "token (authReducer st a) = Some t \<Longrightarrow>
   token st = Some t \<or> fulfilled_token a = Some (Some t)"
  by (cases a) (simp_all split: option.splits)

lemma token_authenticated:
  "token (auth_run acts) \<noteq> None \<longrightarrow> isAuthenticated (auth_run acts)"
proof (induction acts rule: rev_induct)
  case Nil
  show ?case by (simp add: auth_run_def auth_initialState_def)
next
  case (snoc a acts)
  then show ?case
    unfolding auth_run_snoc by (rule token_authenticated_step)
qed

lemma authenticated_token:
  "\<forall>a \<in> set acts. fulfilled_token a \<noteq> Some None \<Longrightarrow>
   isAuthenticated (auth_run acts) \<longrightarrow> token (auth_run acts) \<noteq> None"
proof (induction acts rule: rev_induct)
  case Nil
  show ?case by (simp add: auth_run_def auth_initialState_def)
next
  case (snoc a acts)
  then have "isAuthenticated (auth_run acts) \<longrightarrow> token (auth_run acts) \<noteq> None"
    and "fulfilled_token a \<noteq> Some None"
    by simp_all
  then show ?case
    unfolding auth_run_snoc by (rule authenticated_token_step)
qed

lemma token_origin:
  "token (auth_run acts) = Some t \<Longrightarrow> Some (Some t) \<in> fulfilled_token ` set acts"
proof (induction acts rule: rev_induct)
  case Nil
  then show ?case by (simp add: auth_run_def auth_initialState_def)
next
  case (snoc a acts)
  from snoc.prems have "token (auth_run acts) = Some t \<or> fulfilled_token a = Some (Some t)"
    unfolding auth_run_snoc by (rule token_origin_step)
  then show ?case
  proof
    assume "token (auth_run acts) = Some t"
    then show ?thesis using snoc.IH by simp
  next
    assume "fulfilled_token a = Some (Some t)"
    then show ?thesis by (simp add: image_iff)
  qed
qed

text \<open>
  What holds of the session in every state the store reaches from the initial state: a
  token that is present comes with \<open>isAuthenticated\<close>, and it is the token some
  fulfilled login, registration or session check carried; and \<open>isAuthenticated\<close>
  comes with a token in the runs in which every fulfilled action carried one.
\<close>

lemma session_token_invariant:
  "(token (auth_run acts) \<noteq> None \<longrightarrow> isAuthenticated (auth_run acts)) \<and>
   (token (auth_run acts) = Some t \<longrightarrow> Some (Some t) \<in> fulfilled_token ` set acts) \<and>
   ((\<forall>a \<in> set acts. fulfilled_token a \<noteq> Some None) \<longrightarrow>
      (isAuthenticated (auth_run acts) \<longleftrightarrow> token (auth_run acts) \<noteq> None))"
  using token_authenticated [of acts] token_origin [of acts t] authenticated_token [of acts]
  by blast

lemma session_token_invariant_example:
  "token (auth_run login_with_token) = Some ''QpwL5tke4Pnpja7X4'' \<and>
   isAuthenticated (auth_run login_with_token) \<and>
   Some None \<notin> fulfilled_token ` set login_with_token \<and>
   Some (Some ''QpwL5tke4Pnpja7X4'') \<in> fulfilled_token ` set login_with_token"
  using session_token_invariant [of login_with_token "''QpwL5tke4Pnpja7X4''"]
  by (simp add: login_with_token_def loginUser_def auth_run_def auth_initialState_def)

text \<open>
  Claim C7 on the code: a reachable state that is authenticated with no token. The
  service answers the login with an \<open>ok\<close> status and a body without a token; the thunk
  \<open>loginUser\<close> leaves \<open>localStorage\<close> alone and fulfils all the same, and the reducer
  sets \<open>isAuthenticated\<close> and stores the missing token.
\<close>

theorem authenticated_without_token:
  "isAuthenticated (auth_run login_without_token) \<and> token (auth_run login_without_token) = None"
  by (simp add: login_without_token_def loginUser_def auth_run_def auth_initialState_def)

section \<open>Notifications on the simulated clock\<close>

lemmas notif_eval =
  notif_initial_def addNotification_def removeNotification_def render_def effect_timers_def
  new_notification_def spread_payload_def notification_defaults_def timed_payload_def
  persistent_payload_def deleted_payload_def logout_payload_def notify_def ui_initialState_def
  queue_ids_def

text \<open>What the reducer stores as the duration: a zero is kept, a missing one becomes 5000.\<close>

lemma zero_duration_kept:
  "p_duration p = Some 0 \<Longrightarrow> n_duration (new_notification now rnd p) = 0"
  by (simp add: new_notification_def spread_payload_def)

lemma default_duration:
  "p_duration p = Some 5000 \<or> p_duration p = None \<Longrightarrow>
   n_duration (new_notification now rnd p) = 5000"
  by (auto simp: new_notification_def spread_payload_def notification_defaults_def)

lemma effect_timers_id:
  "(due, j) \<in> set (effect_timers now ns) \<Longrightarrow> \<exists>m \<in> set ns. n_id m = j \<and> 0 < n_duration m"
  by (auto simp: effect_timers_def)

lemma effect_timers_member:
  "n \<in> set ns \<Longrightarrow> 0 < n_duration n \<Longrightarrow>
   (now + n_duration n, n_id n) \<in> set (effect_timers now ns)"
  by (auto simp: effect_timers_def)

lemma render_fields:
  "sys_ui (render sys) = sys_ui sys" "clock (render sys) = clock sys"
  "mounted (render sys) = mounted sys"
  "set (timers sys) \<subseteq> set (timers (render sys))"
  by (auto simp: render_def)

lemma render_timer:
  "(due, j) \<in> set (timers (render sys)) \<Longrightarrow>
   (due, j) \<in> set (timers sys) \<or>
   (\<exists>m \<in> set (notifications (sys_ui sys)). n_id m = j \<and> 0 < n_duration m)"
  by (auto simp: render_def dest: effect_timers_id)

lemma find_due_member:
  "find (\<lambda>(due, i). due \<le> t) ts = Some (d, j) \<Longrightarrow> (d, j) \<in> set ts \<and> d \<le> t"
  by (induction ts) (auto split: if_splits)

lemma no_timer_due:
  "step sys Fire = None \<Longrightarrow> (due, i) \<in> set (timers sys) \<Longrightarrow> clock sys < due"
  by (auto simp: find_None_iff split: option.splits)

subsection \<open>A notification without a positive duration is never removed by a timer\<close>

lemma persists_render:
  assumes "persists n sys" shows "persists n (render sys)"
  using assms render_timer [of _ "n_id n" sys]
  by (fastforce simp: persists_def render_fields)

lemma persists_step:
  assumes inv: "persists n sys" and st: "step sys e = Some sys'"
    and "e \<noteq> Close (n_id n)"
    and "\<And>p rnd. e = Add p rnd \<Longrightarrow> n_id (new_notification (clock sys) rnd p) \<noteq> n_id n"
  shows "persists n sys'"
proof (cases e)
  case (Add p rnd)
  with assms have fresh: "n_id (new_notification (clock sys) rnd p) \<noteq> n_id n"
    by simp
  then show ?thesis
    using inv st Add by (auto simp: persists_def addNotification_def)
next
  case (Close j)
  with assms have "j \<noteq> n_id n"
    by simp
  then show ?thesis
    using inv st Close by (auto simp: persists_def removeNotification_def split: if_splits)
next
  case Fire
  with st obtain d j
    where found: "find (\<lambda>(due, i). due \<le> clock sys) (timers sys) = Some (d, j)"
      and sys': "sys' = sys\<lparr>timers := remove1 (d, j) (timers sys),
                            sys_ui := removeNotification j (sys_ui sys), stale := True\<rparr>"
    by (auto split: option.splits)
  from found have "(d, j) \<in> set (timers sys)"
    by (auto dest: find_due_member)
  with inv have "j \<noteq> n_id n"
    by (force simp: persists_def)
  then show ?thesis
    unfolding sys' using inv set_remove1_subset [of "(d, j)" "timers sys"]
    by (auto simp: persists_def removeNotification_def)
next
  case Render
  then show ?thesis
    using inv st by (auto intro: persists_render split: if_splits)
next
  case (Advance t)
  then show ?thesis
    using inv st by (auto simp: persists_def split: if_splits)
next
  case Mount
  have "persists n (sys\<lparr>mounted := True\<rparr>)"
    using inv by (simp add: persists_def)
  then show ?thesis
    using st Mount by (auto intro: persists_render split: if_splits)
next
  case Unmount
  then show ?thesis
    using inv st by (auto simp: persists_def split: if_splits)
qed

lemma persists_run:
  "persists n sys \<Longrightarrow> run_events sys es = Some sys' \<Longrightarrow> Close (n_id n) \<notin> set es \<Longrightarrow>
   no_readd (n_id n) sys es \<Longrightarrow> persists n sys'"
proof (induction es arbitrary: sys)
  case Nil
  then show ?case by simp
next
  case (Cons e es)
  from Cons.prems(2) obtain mid
    where mid: "step sys e = Some mid" and rest: "run_events mid es = Some sys'"
    by (auto split: option.splits)
  have "persists n mid"
    using Cons.prems(1) mid
  proof (rule persists_step)
    show "e \<noteq> Close (n_id n)"
      using Cons.prems(3) by auto
    show "n_id (new_notification (clock sys) rnd p) \<noteq> n_id n" if "e = Add p rnd" for p rnd
      using Cons.prems(4) that by simp
  qed
  moreover have "no_readd (n_id n) mid es"
    using Cons.prems(4) mid by simp
  ultimately show ?case
    using Cons.IH rest Cons.prems(3) by simp
qed

lemma persists_after_add:
  assumes "p_duration p = Some 0" and "n = new_notification (clock sys) rnd p"
    and "n_id n \<notin> queue_ids sys" and "n_id n \<notin> snd ` set (timers sys)"
    and "step sys (Add p rnd) = Some mid"
  shows "persists n mid"
proof -
  let ?added = "sys\<lparr>sys_ui := addNotification (clock sys) rnd p (sys_ui sys), stale := True\<rparr>"
  have duration: "n_duration n = 0"
    using assms(1,2) by (simp add: zero_duration_kept)
  have queue: "notifications (sys_ui ?added) = notifications (sys_ui sys) @ [n]"
    using assms(2) by (simp add: addNotification_def)
  have others: "n_id m \<noteq> n_id n" if "m \<in> set (notifications (sys_ui sys))" for m
    using assms(3) that unfolding queue_ids_def by (metis imageI)
  have "timers ?added = timers sys"
    by simp
  then have "persists n ?added"
    unfolding persists_def queue using duration others assms(4) by auto
  then show ?thesis
    using assms(5) by simp
qed

text \<open>
  A notification added with the duration 0 under a fresh identifier is still queued after
  any events in which its close button is not used and no later notification takes its
  identifier, whatever time has passed and whether the component is mounted or not.
\<close>

lemma zero_duration_stays:
  assumes "step sys (Add p rnd) = Some mid" and "run_events mid es = Some sys'"
    and "n = new_notification (clock sys) rnd p" and "p_duration p = Some 0"
    and "n_id n \<notin> queue_ids sys" and "n_id n \<notin> snd ` set (timers sys)"
    and "Close (n_id n) \<notin> set es" and "no_readd (n_id n) mid es"
  shows "n_duration n = 0 \<and> n \<in> set (notifications (sys_ui sys'))"
proof -
  have "persists n mid"
    using assms(4,3,5,6,1) by (rule persists_after_add)
  then have "persists n sys'"
    using assms(2,7,8) by (rule persists_run)
  then show ?thesis
    using assms(3,4) by (simp add: persists_def zero_duration_kept)
qed

subsection \<open>A notification the mounted component has rendered is removed when its timer is due\<close>

lemma expiring_render:
  "expiring i due sys \<Longrightarrow> expiring i due (render sys)"
  unfolding expiring_def queue_ids_def render_fields(1,2)
  using render_fields(4) [of sys] by blast

lemma expiring_step:
  assumes inv: "expiring i due sys" and st: "step sys e = Some sys'"
    and "\<And>p rnd. e = Add p rnd \<Longrightarrow> n_id (new_notification (clock sys) rnd p) \<noteq> i"
  shows "expiring i due sys'"
proof (cases e)
  case (Add p rnd)
  with assms have fresh: "n_id (new_notification (clock sys) rnd p) \<noteq> i"
    by simp
  then show ?thesis
    using inv st Add by (auto simp: expiring_def queue_ids_def addNotification_def)
next
  case (Close j)
  then show ?thesis
    using inv st
    by (auto simp: expiring_def queue_ids_def removeNotification_def split: if_splits)
next
  case Fire
  with st obtain d j
    where found: "find (\<lambda>(due, i). due \<le> clock sys) (timers sys) = Some (d, j)"
      and sys': "sys' = sys\<lparr>timers := remove1 (d, j) (timers sys),
                            sys_ui := removeNotification j (sys_ui sys), stale := True\<rparr>"
    by (auto split: option.splits)
  show ?thesis
  proof (cases "j = i")
    case True
    then show ?thesis
      unfolding sys' by (auto simp: expiring_def queue_ids_def removeNotification_def)
  next
    case False
    then show ?thesis
      unfolding sys' using inv
      by (auto simp: expiring_def queue_ids_def removeNotification_def)
  qed
next
  case Render
  then show ?thesis
    using inv st by (auto intro: expiring_render split: if_splits)
next
  case (Advance t)
  then show ?thesis
    using inv st by (auto simp: expiring_def queue_ids_def list_all_iff split: if_splits)
next
  case Mount
  have "expiring i due (sys\<lparr>mounted := True\<rparr>)"
    using inv by (simp add: expiring_def queue_ids_def)
  then show ?thesis
    using st Mount by (auto intro: expiring_render split: if_splits)
next
  case Unmount
  then show ?thesis
    using inv st by (auto simp: expiring_def queue_ids_def split: if_splits)
qed

lemma expiring_run:
  "expiring i due sys \<Longrightarrow> run_events sys es = Some sys' \<Longrightarrow> no_readd i sys es \<Longrightarrow>
   expiring i due sys'"
proof (induction es arbitrary: sys)
  case Nil
  then show ?case by simp
next
  case (Cons e es)
  from Cons.prems(2) obtain mid
    where mid: "step sys e = Some mid" and rest: "run_events mid es = Some sys'"
    by (auto split: option.splits)
  have "expiring i due mid"
    using Cons.prems(1) mid
  proof (rule expiring_step)
    show "n_id (new_notification (clock sys) rnd p) \<noteq> i" if "e = Add p rnd" for p rnd
      using Cons.prems(3) that by simp
  qed
  moreover have "no_readd i mid es"
    using Cons.prems(3) mid by simp
  ultimately show ?case
    using Cons.IH rest by simp
qed

lemma expiring_after_render:
  assumes "n_duration n = d" and "0 < d" and "n = new_notification (clock sys) rnd p"
    and "step sys (Add p rnd) = Some added" and "step added Render = Some mid"
  shows "expiring (n_id n) (clock sys + d) mid"
proof -
  have added: "added = sys\<lparr>sys_ui := addNotification (clock sys) rnd p (sys_ui sys),
                           stale := True\<rparr>"
    using assms(4) by simp
  then have mid: "mid = render added"
    using assms(5) by (simp split: if_splits)
  have "n \<in> set (notifications (sys_ui added))"
    using assms(3) added by (simp add: addNotification_def)
  then have "(clock sys + d, n_id n)
      \<in> set (effect_timers (clock sys) (notifications (sys_ui added)))"
    using effect_timers_member assms(1,2) by blast
  then show ?thesis
    using assms(2) unfolding mid by (simp add: expiring_def render_def added)
qed

text \<open>
  A notification is added with the duration 5000, given or by default, and the mounted
  component renders next. After any events in which no later notification takes its
  identifier, it is not queued once the clock has passed 5000 ms after the addition, nor
  at that very time once no timer is due any more.
\<close>

lemma rendered_notification_expires:
  assumes "step sys (Add p rnd) = Some added" and "step added Render = Some mid"
    and "run_events mid es = Some sys'"
    and "n = new_notification (clock sys) rnd p"
    and "p_duration p = Some 5000 \<or> p_duration p = None"
    and "no_readd (n_id n) mid es"
    and "clock sys + 5000 < clock sys' \<or>
         clock sys + 5000 \<le> clock sys' \<and> step sys' Fire = None"
  shows "n_duration n = 5000 \<and> n_id n \<notin> queue_ids sys'"
proof -
  have d: "n_duration n = 5000"
    using assms(4,5) by (simp add: default_duration)
  have "expiring (n_id n) (clock sys + 5000) mid"
    using d _ assms(4,1,2) by (rule expiring_after_render) simp
  then have "expiring (n_id n) (clock sys + 5000) sys'"
    using assms(3,6) by (rule expiring_run)
  then show ?thesis
    using d assms(7) no_timer_due [of sys' "clock sys + 5000" "n_id n"]
    by (auto simp: expiring_def)
qed

lemma notification_runs_example:
  "(\<exists>s. run_events (notif_initial :: int notif_sys) (Add persistent_payload (1/2) # later_events)
          = Some s \<and> clock s = 10000 \<and>
        notifications (sys_ui s) = [new_notification 0 (1/2) persistent_payload]) \<and>
   (\<exists>s. run_events (notif_initial :: int notif_sys)
           (Add timed_payload (1/4) # Render # expiry_events)
          = Some s \<and> clock s = 5000 \<and> notifications (sys_ui s) = [])"
proof -
  let ?start = "notif_initial :: int notif_sys"
  let ?kept = "new_notification (clock ?start) (1/2) persistent_payload"
  let ?timed = "new_notification (clock ?start) (1/4) timed_payload"
  let ?addA = "?start\<lparr>sys_ui := addNotification (clock ?start) (1/2) persistent_payload
                                  (sys_ui ?start), stale := True\<rparr>"
  let ?addB = "?start\<lparr>sys_ui := addNotification (clock ?start) (1/4) timed_payload
                                  (sys_ui ?start), stale := True\<rparr>"
  let ?endA = "\<lparr>sys_ui = ui_initialState\<lparr>notifications := [?kept]\<rparr>, timers = [],
                clock = 10000, mounted = True, stale = False\<rparr> :: int notif_sys"
  let ?endB = "\<lparr>sys_ui = ui_initialState\<lparr>notifications := []\<rparr>, timers = [],
                clock = 5000, mounted = True, stale = False\<rparr> :: int notif_sys"
  have runA: "run_events ?addA later_events = Some ?endA"
    by (simp add: later_events_def notif_eval)
  have freshA: "no_readd (n_id ?kept) ?addA later_events"
    by (simp add: later_events_def notif_eval)
  have premA: "p_duration persistent_payload = Some 0" "n_id ?kept \<notin> queue_ids ?start"
    "n_id ?kept \<notin> snd ` set (timers ?start)" "Close (n_id ?kept) \<notin> set later_events"
    by (simp_all add: later_events_def notif_eval)
  have A: "?kept \<in> set (notifications (sys_ui ?endA))"
    using zero_duration_stays [OF step.simps(1) runA refl premA freshA] by blast
  have renderB: "step ?addB Render = Some (render ?addB)"
    by (simp add: notif_initial_def)
  have runB: "run_events (render ?addB) expiry_events = Some ?endB"
    by (simp add: expiry_events_def notif_eval)
  have freshB: "no_readd (n_id ?timed) (render ?addB) expiry_events"
    by (simp add: expiry_events_def notif_eval)
  have premB: "p_duration timed_payload = Some 5000 \<or> p_duration timed_payload = None"
    "clock ?start + 5000 < clock ?endB \<or>
     clock ?start + 5000 \<le> clock ?endB \<and> step ?endB Fire = None"
    by (simp_all add: notif_eval)
  have B: "n_id ?timed \<notin> queue_ids ?endB"
    using rendered_notification_expires
            [OF step.simps(1) renderB runB refl premB(1) freshB premB(2)] by blast
  show ?thesis
    using A B runA runB by (simp add: notif_initial_def render_def)
qed

text \<open>
  Claim C4 on the code: a notification with the duration 5000 that is added while the
  component is not mounted, or right before it is unmounted. The component is unmounted,
  \<open>addNotification\<close> is dispatched (once with the duration 5000 given, once with the
  payload of \<open>confirmDelete\<close>, whose duration is the default 5000), and 6000 ms pass;
  or \<open>handleLogout\<close> dispatches its notification and unmounts the list before the
  component renders again. No effect has run, so no timer was set: the notification is
  still in the queue, no timer is pending, and none can fire.
\<close>

theorem unmounted_notification_stays:
  "run_events (notif_initial :: int notif_sys) (logged_out_run timed_payload) =
     Some \<lparr>sys_ui = ui_initialState\<lparr>notifications := [new_notification 0 (1/2) timed_payload]\<rparr>,
           timers = [], clock = 6000, mounted = False, stale = True\<rparr> \<and>
   n_duration (new_notification 0 (1/2) timed_payload) = 5000 \<and>
   run_events (notif_initial :: int notif_sys) (logged_out_run deleted_payload) =
     Some \<lparr>sys_ui = ui_initialState\<lparr>notifications := [new_notification 0 (1/2) deleted_payload]\<rparr>,
           timers = [], clock = 6000, mounted = False, stale = True\<rparr> \<and>
   n_duration (new_notification 0 (1/2) deleted_payload) = 5000 \<and>
   step \<lparr>sys_ui = ui_initialState\<lparr>notifications := [new_notification 0 (1/2) timed_payload]\<rparr>,
         timers = [], clock = 6000, mounted = False, stale = True\<rparr> Fire
     = (None :: int notif_sys option) \<and>
   run_events (notif_initial :: int notif_sys) logout_run =
     Some \<lparr>sys_ui = ui_initialState\<lparr>notifications := [new_notification 0 (1/2) logout_payload]\<rparr>,
           timers = [], clock = 6000, mounted = False, stale = True\<rparr> \<and>
   n_duration (new_notification 0 (1/2) logout_payload) = 5000"
  by (simp add: logged_out_run_def logout_run_def notif_eval)

end
